theory Spec2Isabelle
  imports Main "HOL-Library.Word"
begin

section \<open>Strings\<close>

text \<open>
  A JavaScript string is a sequence of 16-bit UTF-16 code units. The literals of the
  program that are not ASCII are written out as their code units; ASCII literals go
  through \<open>ascii\<close>.
\<close>

type_synonym jsstring = "16 word list"

definition ascii :: "string \<Rightarrow> jsstring" where
  "ascii s = map of_char s"

text \<open>The characters the exporter works with: \<open>"\<close>, \<open>,\<close>, line feed and U+FEFF.\<close>

definition dquote :: "16 word" where
  "dquote = 0x22"

definition comma :: "16 word" where
  "comma = 0x2C"

definition newline :: "16 word" where
  "newline = 0x0A"

definition BOM :: "16 word" where
  "BOM = 0xFEFF"

text \<open>\<open>Array.prototype.join\<close> on an array of strings.\<close>

fun join :: "jsstring \<Rightarrow> jsstring list \<Rightarrow> jsstring" where
  "join sep [] = []"
| "join sep [x] = x"
| "join sep (x # y # ys) = x @ sep @ join sep (y # ys)"

text \<open>\<open>s.replace(/"/g, '""')\<close>: every double quote becomes two.\<close>

definition replaceQuotes :: "jsstring \<Rightarrow> jsstring" where
  "replaceQuotes s = concat (map (\<lambda>c. if c = dquote then [dquote, dquote] else [c]) s)"

text \<open>The template \<open>`"${s.replace(/"/g, '""')}"`\<close> used for the five \<open>safe...\<close> fields.\<close>

definition safe :: "jsstring \<Rightarrow> jsstring" where
  "safe s = [dquote] @ replaceQuotes s @ [dquote]"


section \<open>types.ts\<close>

text \<open>
  \<open>ScannedItem\<close> carries the four metadata fields of the \<open>metadata\<close> state object plus
  its own four; it is modelled as an extension of the metadata record, so that the field
  names are those of the source. The field \<open>id\<close> is named \<open>id'\<close>.
\<close>

record Metadata =
  schoolName :: jsstring
  grade :: jsstring
  className :: jsstring
  inputterName :: jsstring

record ScannedItem = Metadata +
  id' :: jsstring
  content :: jsstring
  format :: jsstring
  timestamp :: int


section \<open>App.tsx: state\<close>

datatype ToastType = success | warning

record Toast =
  message :: jsstring
  type :: ToastType
  toastId :: int

text \<open>
  The component state (\<open>useState\<close> and \<open>useRef\<close> cells) followed by a log of the effects
  the handlers have on the outside: calls of \<open>playScanBeep\<close>, texts written to the
  clipboard, \<open>alert\<close> messages, and downloads (file name and text of the blob). The cells
  \<open>isScanningPaused\<close> and \<open>showSettings\<close>, which none of these handlers reads or writes,
  are left out.
\<close>

record App =
  items :: "ScannedItem list"
  toast :: "Toast option"
  metadata :: Metadata
  lastScanRef :: "jsstring option"
  lastScanTimeRef :: int
  beeps :: nat
  clipboard :: "jsstring list"
  alerts :: "jsstring list"
  downloads :: "(jsstring \<times> jsstring) list"

definition initial :: App where
  "initial = \<lparr>items = [], toast = None,
     metadata = \<lparr>schoolName = [], grade = [], className = [], inputterName = []\<rparr>,
     lastScanRef = None, lastScanTimeRef = 0,
     beeps = 0, clipboard = [], alerts = [], downloads = []\<rparr>"

text \<open>The string literals of App.tsx, as UTF-16 code units.\<close>

definition msgDuplicate :: jsstring where
  "msgDuplicate = [0x65E2, 0x306B, 0x30B9, 0x30AD, 0x30E3, 0x30F3, 0x6E08, 0x307F, 0x3067, 0x3059]"

definition msgSuccess :: jsstring where
  "msgSuccess = [0x30B9, 0x30AD, 0x30E3, 0x30F3, 0x6210, 0x529F, 0xFF01]"

definition msgCopied :: jsstring where
  "msgCopied = [0x5168, 0x30C7, 0x30FC, 0x30BF, 0x3092, 0x30AF, 0x30EA, 0x30C3, 0x30D7,
     0x30DC, 0x30FC, 0x30C9, 0x306B, 0x30B3, 0x30D4, 0x30FC, 0x3057, 0x307E, 0x3057, 0x305F,
     0xFF08, 0x0043, 0x0053, 0x0056, 0x5F62, 0x5F0F, 0xFF09]"

definition headers :: jsstring where
  "headers = [0x5B66, 0x6821, 0x540D, 0x002C, 0x5B66, 0x5E74, 0x002C, 0x30AF, 0x30E9, 0x30B9,
     0x002C, 0x5165, 0x529B, 0x8005, 0x540D, 0x002C, 0x30B9, 0x30AD, 0x30E3, 0x30F3, 0x65E5,
     0x6642, 0x002C, 0x5185, 0x5BB9, 0x002C, 0x5F62, 0x5F0F]"

definition filePrefix :: jsstring where
  "filePrefix = [0x30B9, 0x30AD, 0x30E3, 0x30F3, 0x7D50, 0x679C, 0x005F]"


section \<open>App.tsx: handlers\<close>

definition playScanBeep :: "App \<Rightarrow> App" where
  "playScanBeep s = s\<lparr>beeps := Suc (beeps s)\<rparr>"

text \<open>\<open>showToast\<close> reads the clock again for the id of the toast.\<close>

definition showToast :: "jsstring \<Rightarrow> ToastType \<Rightarrow> int \<Rightarrow> App \<Rightarrow> App" where
  "showToast msg ty toastNow s = s\<lparr>toast := Some \<lparr>message = msg, type = ty, toastId = toastNow\<rparr>\<rparr>"

text \<open>The effect that hides the toast when its 3000 ms timer fires.\<close>

definition hideToast :: "App \<Rightarrow> App" where
  "hideToast s = s\<lparr>toast := None\<rparr>"

text \<open>
  \<open>handleScan(content, format)\<close> is a \<open>useCallback\<close> closure with the dependencies
  \<open>[items, metadata]\<close>: the \<open>items\<close> and \<open>metadata\<close> in its body are the values of the
  render that created the callback, here \<open>items0\<close> and \<open>metadata0\<close>. The two refs are
  read and written in place, and \<open>setItems((prev) => [newItem, ...prev])\<close> is a functional
  update of the store as it is. So the duplicate test looks at \<open>items0\<close> and the record
  goes into \<open>items s\<close>. The clock reading \<open>now\<close>, the fresh identifier \<open>uuid\<close>
  (\<open>crypto.randomUUID()\<close> or its \<open>Math.random\<close> fallback) and the clock reading of
  \<open>showToast\<close> come from the environment.
\<close>

definition handleScan ::
  "ScannedItem list \<Rightarrow> Metadata \<Rightarrow> jsstring \<Rightarrow> jsstring \<Rightarrow> int \<Rightarrow> jsstring \<Rightarrow> int \<Rightarrow> App \<Rightarrow> App" where
  "handleScan items0 metadata0 cnt fmt now uuid toastNow s =
    (if Some cnt = lastScanRef s \<and> now - lastScanTimeRef s < 1500 then s
     else
       let s1 = s\<lparr>lastScanRef := Some cnt, lastScanTimeRef := now\<rparr>;
           s2 = playScanBeep s1;
           isDuplicate = list_ex (\<lambda>item. content item = cnt) items0
       in if isDuplicate then showToast msgDuplicate warning toastNow s2
          else
            let newItem = \<lparr>schoolName = schoolName metadata0,
                           grade = grade metadata0,
                           className = className metadata0,
                           inputterName = inputterName metadata0,
                           id' = uuid, content = cnt, format = fmt, timestamp = now\<rparr>
            in showToast msgSuccess success toastNow (s2\<lparr>items := newItem # items s2\<rparr>))"

definition handleDelete :: "jsstring \<Rightarrow> App \<Rightarrow> App" where
  "handleDelete i s = s\<lparr>items := filter (\<lambda>item. id' item \<noteq> i) (items s)\<rparr>"

text \<open>\<open>handleClear\<close>; \<open>confirmed\<close> is the answer of the \<open>confirm\<close> dialog.\<close>

definition handleClear :: "bool \<Rightarrow> App \<Rightarrow> App" where
  "handleClear confirmed s =
    (if confirmed then s\<lparr>items := [], lastScanRef := None\<rparr> else s)"

text \<open>
  \<open>handleMetadataChange\<close> is bound to four inputs, whose \<open>name\<close> attributes are the four
  keys of the metadata object; \<open>{ ...metadata, [name]: value }\<close> replaces that key.
\<close>

datatype InputName = SchoolName | Grade | ClassName | InputterName

fun setKey :: "InputName \<Rightarrow> jsstring \<Rightarrow> Metadata \<Rightarrow> Metadata" where
  "setKey SchoolName v m = m\<lparr>schoolName := v\<rparr>"
| "setKey Grade v m = m\<lparr>grade := v\<rparr>"
| "setKey ClassName v m = m\<lparr>className := v\<rparr>"
| "setKey InputterName v m = m\<lparr>inputterName := v\<rparr>"

definition handleMetadataChange :: "InputName \<Rightarrow> jsstring \<Rightarrow> App \<Rightarrow> App" where
  "handleMetadataChange name v s =
    (let newMetadata = setKey name v (metadata s)
     in s\<lparr>metadata := newMetadata,
          items := map (\<lambda>item. item\<lparr>schoolName := schoolName newMetadata,
                                     grade := grade newMetadata,
                                     className := className newMetadata,
                                     inputterName := inputterName newMetadata\<rparr>) (items s)\<rparr>)"


section \<open>App.tsx: export\<close>

text \<open>
  One row of the export. \<open>toLocaleString\<close> renders a timestamp in the locale of the
  browser; it is a parameter. The row is the template
  \<open>`${safeSchool},${safeGrade},${safeClass},${safeInputter},${date},${safeContent},${item.format}`\<close>,
  that is, the seven fields below joined by commas.
\<close>

definition rowFields :: "(int \<Rightarrow> jsstring) \<Rightarrow> ScannedItem \<Rightarrow> jsstring list" where
  "rowFields toLocaleString item =
    (let date = toLocaleString (timestamp item);
         safeContent = safe (content item);
         safeSchool = safe (schoolName item);
         safeGrade = safe (grade item);
         safeClass = safe (className item);
         safeInputter = safe (inputterName item)
     in [safeSchool, safeGrade, safeClass, safeInputter, date, safeContent, format item])"

definition row :: "(int \<Rightarrow> jsstring) \<Rightarrow> ScannedItem \<Rightarrow> jsstring" where
  "row toLocaleString item = join [comma] (rowFields toLocaleString item)"

text \<open>
  \<open>[headers, ...rows].join('\n')\<close>: \<open>headers\<close> is an array of one string, which \<open>join\<close>
  renders as that string.
\<close>

definition csvText :: "(int \<Rightarrow> jsstring) \<Rightarrow> ScannedItem list \<Rightarrow> jsstring" where
  "csvText toLocaleString its = join [newline] (headers # map (row toLocaleString) its)"

definition handleCopyAll :: "(int \<Rightarrow> jsstring) \<Rightarrow> App \<Rightarrow> App" where
  "handleCopyAll toLocaleString s =
    (if length (items s) = 0 then s
     else
       let text = csvText toLocaleString (items s)
       in s\<lparr>clipboard := clipboard s @ [text], alerts := alerts s @ [msgCopied]\<rparr>)"

text \<open>
  \<open>handleDownloadCSV\<close>; \<open>isoNow\<close> is \<open>new Date().toISOString()\<close>. The click on the
  temporary link is logged as a download of the blob's text under the file name.
\<close>

definition handleDownloadCSV :: "(int \<Rightarrow> jsstring) \<Rightarrow> jsstring \<Rightarrow> App \<Rightarrow> App" where
  "handleDownloadCSV toLocaleString isoNow s =
    (if length (items s) = 0 then s
     else
       let csvContent = [BOM] @ csvText toLocaleString (items s);
           fileName = filePrefix @ take 10 isoNow @ ascii ''.csv''
       in s\<lparr>downloads := downloads s @ [(fileName, csvContent)]\<rparr>)"


text \<open>
  The two export buttons carry \<open>disabled={items.length === 0}\<close>: a click on a disabled
  button calls no handler.
\<close>

definition copyButton :: "(int \<Rightarrow> jsstring) \<Rightarrow> App \<Rightarrow> App" where
  "copyButton toLocaleString s =
    (if length (items s) = 0 then s else handleCopyAll toLocaleString s)"

definition csvButton :: "(int \<Rightarrow> jsstring) \<Rightarrow> jsstring \<Rightarrow> App \<Rightarrow> App" where
  "csvButton toLocaleString isoNow s =
    (if length (items s) = 0 then s else handleDownloadCSV toLocaleString isoNow s)"


section \<open>App.tsx: runs\<close>

text \<open>
  The page: the cells as they are, and the \<open>items\<close> and \<open>metadata\<close> captured by the
  \<open>handleScan\<close> that the scanner calls. A render creates a new \<open>handleScan\<close> from the
  cells, and its effect hands it to the scanner (\<open>onScanRef.current = onScan\<close>); React
  renders after every change of state, at once after a click or an input, at some
  later time after a scan. Until then the scanner calls the callback it has.
\<close>

record Page =
  live :: App
  capturedItems :: "ScannedItem list"
  capturedMetadata :: Metadata

definition firstRender :: Page where
  "firstRender = \<lparr>live = initial, capturedItems = items initial,
     capturedMetadata = metadata initial\<rparr>"

definition render :: "Page \<Rightarrow> Page" where
  "render p = p\<lparr>capturedItems := items (live p), capturedMetadata := metadata (live p)\<rparr>"

text \<open>
  The events that change the store, each with what it takes from the environment, and
  the page after a sequence of them. \<open>Render\<close> is an event of its own, so that a run
  says where the renders fall; in \<open>rendered es\<close> one follows every event.
\<close>

datatype Event =
    Scan jsstring jsstring int jsstring int
  | Render
  | Delete jsstring
  | Clear bool
  | MetadataChange InputName jsstring

fun step :: "Page \<Rightarrow> Event \<Rightarrow> Page" where
  "step p (Scan cnt fmt now uuid toastNow) =
     p\<lparr>live := handleScan (capturedItems p) (capturedMetadata p) cnt fmt now uuid toastNow (live p)\<rparr>"
| "step p Render = render p"
| "step p (Delete i) = p\<lparr>live := handleDelete i (live p)\<rparr>"
| "step p (Clear confirmed) = p\<lparr>live := handleClear confirmed (live p)\<rparr>"
| "step p (MetadataChange name v) = p\<lparr>live := handleMetadataChange name v (live p)\<rparr>"

definition run :: "Event list \<Rightarrow> Page" where
  "run es = foldl step firstRender es"

definition rendered :: "Event list \<Rightarrow> Event list" where
  "rendered es = concat (map (\<lambda>e. [e, Render]) es)"


section \<open>The other App component (unnamed/part_001)\<close>

text \<open>
  The repository holds a second version of the App component, with the same cells for
  the items, the metadata and the cooldown reference, and no toast (its cells \<open>analysis\<close>
  and \<open>isAnalyzing\<close> are not touched by the handlers below). Its handlers carry the
  suffix \<open>_p1\<close>. \<open>handleScan\<close> there is a closure with the dependency \<open>[metadata]\<close>;
  it has a cooldown of 2000 ms and does not look at \<open>items\<close> before it inserts.
\<close>

definition handleScan_p1 ::
  "Metadata \<Rightarrow> jsstring \<Rightarrow> jsstring \<Rightarrow> int \<Rightarrow> jsstring \<Rightarrow> App \<Rightarrow> App" where
  "handleScan_p1 metadata0 cnt fmt now uuid s =
    (if Some cnt = lastScanRef s \<and> now - lastScanTimeRef s < 2000 then s
     else
       let s1 = s\<lparr>lastScanRef := Some cnt, lastScanTimeRef := now\<rparr>;
           s2 = playScanBeep s1;
           newItem = \<lparr>schoolName = schoolName metadata0,
                      grade = grade metadata0,
                      className = className metadata0,
                      inputterName = inputterName metadata0,
                      id' = uuid, content = cnt, format = fmt, timestamp = now\<rparr>
       in s2\<lparr>items := newItem # items s2\<rparr>)"

definition handleCopyAll_p1 :: "App \<Rightarrow> App" where
  "handleCopyAll_p1 s =
    (let text = join [newline] (map content (items s))
     in s\<lparr>clipboard := clipboard s @ [text],
          alerts := alerts s @ [ascii ''All items copied to clipboard!'']\<rparr>)"

definition row_p1 :: "(int \<Rightarrow> jsstring) \<Rightarrow> ScannedItem \<Rightarrow> jsstring" where
  "row_p1 toLocaleString item =
    (let date = toLocaleString (timestamp item);
         safeContent = safe (content item);
         safeSchool = safe (schoolName item);
         safeGrade = safe (grade item);
         safeClass = safe (className item);
         safeInputter = safe (inputterName item)
     in join [comma]
          [date, safeContent, format item, safeSchool, safeGrade, safeClass, safeInputter])"

definition handleDownloadCSV_p1 :: "(int \<Rightarrow> jsstring) \<Rightarrow> jsstring \<Rightarrow> App \<Rightarrow> App" where
  "handleDownloadCSV_p1 toLocaleString isoNow s =
    (let hdrs = ascii ''Timestamp,Content,Format,School Name,Grade,Class,Inputter Name'';
         csvContent = [BOM] @ join [newline] (hdrs # map (row_p1 toLocaleString) (items s));
         fileName = ascii ''scan_results_'' @ take 10 isoNow @ ascii ''.csv''
     in s\<lparr>downloads := downloads s @ [(fileName, csvContent)]\<rparr>)"

text \<open>Its two export buttons are disabled in the same way.\<close>

definition copyButton_p1 :: "App \<Rightarrow> App" where
  "copyButton_p1 s = (if length (items s) = 0 then s else handleCopyAll_p1 s)"

definition csvButton_p1 :: "(int \<Rightarrow> jsstring) \<Rightarrow> jsstring \<Rightarrow> App \<Rightarrow> App" where
  "csvButton_p1 toLocaleString isoNow s =
    (if length (items s) = 0 then s else handleDownloadCSV_p1 toLocaleString isoNow s)"


section \<open>services/geminiService.ts\<close>

text \<open>
  \<open>analyzeScannedItems\<close> is an async function; the model gives what its promise settles
  to, \<open>Inl\<close> for a rejection and \<open>Inr\<close> for the string it resolves to, together with
  the \<open>contents\<close> of every \<open>generateContent\<close> request it sent and what it logged with
  \<open>console.error\<close>. The outside is a parameter: \<open>API_KEY\<close> is \<open>process.env.API_KEY\<close>
  (\<open>None\<close> for undefined), \<open>GoogleGenAI\<close> is the constructor of the client and
  \<open>generateContent\<close> the request, which returns \<open>response.text\<close> (\<open>None\<close> for undefined);
  both may throw.
\<close>

datatype error = Error jsstring

record Analysis =
  settled :: "error + jsstring"
  requests :: "jsstring list"
  consoleErrors :: "error list"

definition notConfigured :: jsstring where
  "notConfigured = ascii ''API Key not configured. Unable to analyze.''"

definition noItems :: jsstring where
  "noItems = ascii ''No items to analyze.''"

definition couldNotGenerate :: jsstring where
  "couldNotGenerate = ascii ''Could not generate analysis.''"

definition failedToAnalyze :: jsstring where
  "failedToAnalyze = ascii ''Failed to analyze items. Please try again.''"

text \<open>The \<open>contents\<close> template around the list.\<close>

definition contentsOf :: "jsstring \<Rightarrow> jsstring" where
  "contentsOf contentList =
     ascii ''I have scanned the following list of QR codes/Barcodes. Please provide a concise summary of what these items likely are. ''
     @ [newline] @ ascii ''      Are they URLs, product codes, inventory IDs, or mixed? ''
     @ [newline] @ ascii ''      If they are URLs, what kind of sites? ''
     @ [newline] @ ascii ''      Format the response as a helpful insight for the user.''
     @ [newline] @ ascii ''      ''
     @ [newline] @ ascii ''      List:''
     @ [newline] @ ascii ''      '' @ contentList"

text \<open>The \<open>catch\<close> block: log the error, return the fixed string.\<close>

definition catch :: "jsstring list \<Rightarrow> error \<Rightarrow> Analysis" where
  "catch sent e = \<lparr>settled = Inr failedToAnalyze, requests = sent, consoleErrors = [e]\<rparr>"

definition analyzeScannedItems ::
  "jsstring option \<Rightarrow> (jsstring \<Rightarrow> error + 'ai) \<Rightarrow> ('ai \<Rightarrow> jsstring \<Rightarrow> error + jsstring option)
    \<Rightarrow> (int \<Rightarrow> jsstring) \<Rightarrow> ScannedItem list \<Rightarrow> Analysis" where
  "analyzeScannedItems API_KEY GoogleGenAI generateContent toLocaleTimeString its =
    (case API_KEY of
       None \<Rightarrow> \<lparr>settled = Inr notConfigured, requests = [], consoleErrors = []\<rparr>
     | Some key \<Rightarrow>
         if key = [] then \<lparr>settled = Inr notConfigured, requests = [], consoleErrors = []\<rparr>
         else if length its = 0 then
           \<lparr>settled = Inr noItems, requests = [], consoleErrors = []\<rparr>
         else
           (case GoogleGenAI key of
              Inl e \<Rightarrow> catch [] e
            | Inr ai \<Rightarrow>
                let contentList = join [newline]
                      (map (\<lambda>item. ascii ''- '' @ content item @ ascii '' (scanned at ''
                                     @ toLocaleTimeString (timestamp item) @ ascii '')'') its);
                    contents = contentsOf contentList
                in (case generateContent ai contents of
                      Inl e \<Rightarrow> catch [contents] e
                    | Inr None \<Rightarrow>
                        \<lparr>settled = Inr couldNotGenerate, requests = [contents],
                         consoleErrors = []\<rparr>
                    | Inr (Some text) \<Rightarrow>
                        \<lparr>settled = Inr (if text = [] then couldNotGenerate else text),
                         requests = [contents], consoleErrors = []\<rparr>)))"


section \<open>Properties of exported fields\<close>

text \<open>
  In \<open>paired s\<close> every double quote of \<open>s\<close> is followed by a second one that belongs
  to it. A field is \<open>enclosed\<close> when it starts and ends with a double quote and the
  quotes in between are paired.
\<close>

fun paired :: "jsstring \<Rightarrow> bool" where
  "paired [] = True"
| "paired (c # cs) =
     (if c = dquote then (case cs of [] \<Rightarrow> False | d # ds \<Rightarrow> d = dquote \<and> paired ds)
      else paired cs)"

definition enclosed :: "jsstring \<Rightarrow> bool" where
  "enclosed f = (2 \<le> length f \<and> hd f = dquote \<and> last f = dquote \<and> paired (butlast (tl f)))"

text \<open>
  The number of cells a reader of CSV finds in a line: one more than the commas that
  stand outside double quotes.
\<close>

fun separators :: "bool \<Rightarrow> jsstring \<Rightarrow> nat" where
  "separators quoted [] = 0"
| "separators quoted (c # cs) =
     (if c = dquote then separators (\<not> quoted) cs
      else if c = comma \<and> \<not> quoted then Suc (separators quoted cs)
      else separators quoted cs)"

definition cells :: "jsstring \<Rightarrow> nat" where
  "cells line = Suc (separators False line)"


section \<open>Example inputs\<close>

text \<open>
  Two stand-ins for \<open>toLocaleString\<close>: they give every timestamp the rendering of the
  timestamp 1000 in Tokyo time, the first as ja-JP does, the second as en-US does.
\<close>

definition exampleLocale :: "int \<Rightarrow> jsstring" where
  "exampleLocale t = ascii ''1970/1/1 9:00:01''"

definition exampleLocaleUS :: "int \<Rightarrow> jsstring" where
  "exampleLocaleUS t = ascii ''1/1/1970, 9:00:01 AM''"

definition QR_CODE :: jsstring where
  "QR_CODE = ascii ''QR_CODE''"

definition exampleDraft :: Metadata where
  "exampleDraft = \<lparr>schoolName = ascii ''X'', grade = ascii ''1'', className = ascii ''A'',
     inputterName = ascii ''Y''\<rparr>"

definition exampleItem :: ScannedItem where
  "exampleItem = \<lparr>schoolName = ascii ''X'', grade = ascii ''1'', className = ascii ''A'',
     inputterName = ascii ''Y'', id' = ascii ''id-1'', content = ascii ''He said \"hi\"'',
     format = QR_CODE, timestamp = 1000\<rparr>"

definition otherItem :: ScannedItem where
  "otherItem = \<lparr>schoolName = [], grade = [], className = [],
     inputterName = [], id' = ascii ''id-2'', content = ascii ''B'',
     format = QR_CODE, timestamp = 2000\<rparr>"

text \<open>A client whose constructor succeeds and whose request throws, and one that answers.\<close>

definition newClient :: "jsstring \<Rightarrow> error + unit" where
  "newClient key = Inr ()"

definition requestFails :: "unit \<Rightarrow> jsstring \<Rightarrow> error + jsstring option" where
  "requestFails ai contents = Inl (Error (ascii ''fetch failed''))"

definition requestAnswers :: "unit \<Rightarrow> jsstring \<Rightarrow> error + jsstring option" where
  "requestAnswers ai contents = Inr (Some (ascii ''These are URLs.''))"

text \<open>
  A session: the four metadata inputs are filled in and the page is rendered, then
  \<open>He said "hi"\<close> is scanned at time 1000 and the page is rendered again. Its state.
  A store of two records under the draft of the session, and a reading of
  \<open>toISOString\<close> five seconds later.
\<close>

definition exampleRun :: "Event list" where
  "exampleRun = [MetadataChange SchoolName (ascii ''X''), MetadataChange Grade (ascii ''1''),
     MetadataChange ClassName (ascii ''A''), MetadataChange InputterName (ascii ''Y''), Render,
     Scan (ascii ''He said \"hi\"'') QR_CODE 1000 (ascii ''id-1'') 1001, Render]"

definition exampleState :: App where
  "exampleState =
     \<lparr>items = [exampleItem],
      toast = Some \<lparr>message = msgSuccess, type = success, toastId = 1001\<rparr>,
      metadata = exampleDraft,
      lastScanRef = Some (ascii ''He said \"hi\"''), lastScanTimeRef = 1000,
      beeps = 1, clipboard = [], alerts = [], downloads = []\<rparr>"

definition twoItems :: App where
  "twoItems = initial\<lparr>items := [otherItem, exampleItem], metadata := exampleDraft\<rparr>"

definition exampleIso :: jsstring where
  "exampleIso = ascii ''1970-01-01T00:00:06.000Z''"

text \<open>
  Three scans, of \<open>A\<close>, \<open>B\<close> and \<open>A\<close> again, that reach the page before it is rendered
  anew: all three are served by the \<open>handleScan\<close> of the first render.
\<close>

definition staleRun :: "Event list" where
  "staleRun = [Scan (ascii ''A'') QR_CODE 1000 (ascii ''id-1'') 1001,
     Scan (ascii ''B'') QR_CODE 1100 (ascii ''id-2'') 1101,
     Scan (ascii ''A'') QR_CODE 1200 (ascii ''id-3'') 1201]"

definition scanned :: "jsstring \<Rightarrow> jsstring \<Rightarrow> int \<Rightarrow> ScannedItem" where
  "scanned cnt uuid now = \<lparr>schoolName = [], grade = [], className = [], inputterName = [],
     id' = uuid, content = cnt, format = QR_CODE, timestamp = now\<rparr>"


section \<open>Auxiliary facts\<close>

lemma exampleRun_state:
  "run exampleRun =
     \<lparr>live = exampleState, capturedItems = [exampleItem], capturedMetadata = exampleDraft\<rparr>"
  by (simp add: run_def exampleRun_def firstRender_def render_def initial_def
      handleMetadataChange_def handleScan_def Let_def playScanBeep_def showToast_def
      exampleItem_def exampleState_def exampleDraft_def)

lemma filter_other_keys:
  assumes "distinct (map f xs)" and "k < length xs"
  shows "filter (\<lambda>x. f x \<noteq> f (xs ! k)) xs = take k xs @ drop (Suc k) xs"
  using assms
proof (induction xs arbitrary: k)
  case Nil
  then show ?case by simp
next
  case (Cons x xs)
  show ?case
  proof (cases k)
    case 0
    from Cons.prems have "f x \<notin> f ` set xs" by simp
    then have "\<forall>y\<in>set xs. f y \<noteq> f x" by (metis imageI)
    then have "filter (\<lambda>y. f y \<noteq> f x) xs = xs"
      by (simp add: filter_id_conv)
    with 0 show ?thesis by simp
  next
    case (Suc j)
    from Suc Cons.prems have "j < length xs" and "f x \<notin> f ` set xs" by simp_all
    then have "f (xs ! j) \<noteq> f x" by (metis nth_mem imageI)
    with Suc Cons show ?thesis by simp
  qed
qed

lemma filter_absent_key:
  assumes "i \<notin> f ` set xs"
  shows "filter (\<lambda>x. f x \<noteq> i) xs = xs"
  using assms by (auto simp: filter_id_conv)

lemma paired_replaceQuotes: "paired (replaceQuotes x)"
  by (induction x) (simp_all add: replaceQuotes_def)

lemma enclosed_safe: "enclosed (safe x)"
  by (simp add: enclosed_def safe_def paired_replaceQuotes)

text \<open>
  A scan keeps the payloads of the store distinct when the list its callback has
  captured holds every payload of the store.
\<close>

lemma handleScan_keeps_distinct:
  assumes "distinct (map content (items s))"
    and "content ` set (items s) \<subseteq> content ` set items0"
  shows "distinct (map content (items (handleScan items0 metadata0 cnt fmt now uuid toastNow s)))"
proof -
  have "cnt \<notin> content ` set (items s)"
    if "\<not> list_ex (\<lambda>item. content item = cnt) items0"
  proof -
    from that have "cnt \<notin> content ` set items0" by (auto simp: list_ex_iff)
    with assms(2) show ?thesis by blast
  qed
  with assms(1) show ?thesis
    by (simp add: handleScan_def Let_def playScanBeep_def showToast_def)
qed

lemma handleDelete_keeps_distinct:
  "distinct (map content (items s)) \<Longrightarrow> distinct (map content (items (handleDelete i s)))"
  by (simp add: handleDelete_def distinct_map_filter)

lemma handleClear_keeps_distinct:
  "distinct (map content (items s)) \<Longrightarrow> distinct (map content (items (handleClear c s)))"
  by (simp add: handleClear_def)

lemma handleMetadataChange_keeps_distinct:
  "distinct (map content (items s)) \<Longrightarrow>
   distinct (map content (items (handleMetadataChange name v s)))"
  by (simp add: handleMetadataChange_def Let_def comp_def)

text \<open>After an event and a render the payloads of the store are distinct again.\<close>

lemma step_render_keeps_distinct:
  assumes "distinct (map content (items (live p)))"
    and "content ` set (items (live p)) \<subseteq> content ` set (capturedItems p)"
  shows "distinct (map content (items (live (render (step p e)))))
       \<and> capturedItems (render (step p e)) = items (live (render (step p e)))"
proof (cases e)
  case (Scan cnt fmt now uuid toastNow)
  with assms show ?thesis by (simp add: render_def handleScan_keeps_distinct)
next
  case Render
  with assms show ?thesis by (simp add: render_def)
next
  case (Delete i)
  with assms show ?thesis by (simp add: render_def handleDelete_keeps_distinct)
next
  case (Clear confirmed)
  with assms show ?thesis by (simp add: render_def handleClear_keeps_distinct)
next
  case (MetadataChange name v)
  with assms show ?thesis by (simp add: render_def handleMetadataChange_keeps_distinct)
qed

lemma rendered_run_keeps_distinct:
  assumes "distinct (map content (items (live p)))"
    and "content ` set (items (live p)) \<subseteq> content ` set (capturedItems p)"
  shows "distinct (map content (items (live (foldl step p (rendered es)))))"
  using assms
proof (induction es arbitrary: p)
  case Nil
  then show ?case by (simp add: rendered_def)
next
  case (Cons e es)
  from step_render_keeps_distinct [OF Cons.prems, of e]
  have d: "distinct (map content (items (live (render (step p e)))))"
    and c: "capturedItems (render (step p e)) = items (live (render (step p e)))"
    by simp_all
  from c have "content ` set (items (live (render (step p e))))
      \<subseteq> content ` set (capturedItems (render (step p e)))" by simp
  from Cons.IH [OF d this] show ?case by (simp add: rendered_def)
qed


section \<open>The scan gate\<close>

text \<open>
  Claim C2. When the cooldown reference is the payload \<open>P\<close> and less than 1500 ms have
  passed since the reference time, \<open>handleScan\<close> of \<open>P\<close> returns the state it was given:
  no record, no toast, no beep, no change of the reference, whatever the store holds and
  whatever list the callback has captured.
\<close>

theorem handleScan_cooldown_silent:
  assumes "lastScanRef s = Some P" and "now - lastScanTimeRef s < 1500"
  shows "handleScan items0 metadata0 P fmt now uuid toastNow s = s"
  using assms by (simp add: handleScan_def)

theorem handleScan_cooldown_silent_witness:
  "lastScanRef exampleState = Some (ascii ''He said \"hi\"'')
   \<and> 2000 - lastScanTimeRef exampleState < 1500
   \<and> handleScan [exampleItem] exampleDraft (ascii ''He said \"hi\"'') QR_CODE 2000
        (ascii ''id-2'') 2001 exampleState = exampleState
   \<and> handleScan [] exampleDraft (ascii ''He said \"hi\"'') QR_CODE 2000
        (ascii ''id-2'') 2001 exampleState = exampleState"
proof -
  have h1: "lastScanRef exampleState = Some (ascii ''He said \"hi\"'')"
    by (simp add: exampleState_def)
  have h2: "2000 - lastScanTimeRef exampleState < 1500"
    by (simp add: exampleState_def)
  from handleScan_cooldown_silent [OF h1 h2, of "[exampleItem]"]
       handleScan_cooldown_silent [OF h1 h2, of "[]"] h1 h2
  show ?thesis by simp
qed

text \<open>
  The same for two scans in a row: when the first scan of \<open>P\<close> passes the cooldown check
  at time \<open>t1\<close> and the second comes less than 1500 ms later, the second changes nothing.
  In the other App component the window is 2000 ms.
\<close>

lemma handleScan_twice_within_cooldown:
  assumes "\<not> (Some P = lastScanRef s \<and> t1 - lastScanTimeRef s < 1500)" and "t2 - t1 < 1500"
  shows "handleScan i2 m2 P f2 t2 u2 n2 (handleScan i1 m1 P f1 t1 u1 n1 s)
         = handleScan i1 m1 P f1 t1 u1 n1 s"
  using assms by (auto simp: handleScan_def Let_def playScanBeep_def showToast_def)

lemma handleScan_p1_cooldown_silent:
  assumes "lastScanRef s = Some P" and "now - lastScanTimeRef s < 2000"
  shows "handleScan_p1 metadata0 P fmt now uuid s = s"
  using assms by (simp add: handleScan_p1_def)

text \<open>
  Claim C3 fails on the code. The duplicate test of \<open>handleScan\<close> reads the list that
  the callback has captured, not the store. In \<open>staleRun\<close> the store holds \<open>A\<close> after
  two scans and the cooldown reference is \<open>B\<close>; the third scan, of \<open>A\<close>, is served by
  the callback of the first render, which has captured the empty list: it stores a second
  record for \<open>A\<close> and shows the success toast.
\<close>

theorem stale_callback_stores_duplicate:
  "ascii ''A'' \<in> content ` set (items (live (run (take 2 staleRun))))
   \<and> lastScanRef (live (run (take 2 staleRun))) = Some (ascii ''B'')
   \<and> capturedItems (run (take 2 staleRun)) = []
   \<and> items (live (run staleRun)) =
       [scanned (ascii ''A'') (ascii ''id-3'') 1200, scanned (ascii ''B'') (ascii ''id-2'') 1100,
        scanned (ascii ''A'') (ascii ''id-1'') 1000]
   \<and> toast (live (run staleRun)) = Some \<lparr>message = msgSuccess, type = success, toastId = 1201\<rparr>"
  by (simp add: run_def staleRun_def firstRender_def initial_def handleScan_def Let_def
      playScanBeep_def showToast_def scanned_def ascii_def)

text \<open>
  What the code does: a payload that occurs in the captured list, scanned outside the
  cooldown window, gets the warning toast, and the store stays as it is.
\<close>

lemma handleScan_duplicate_in_captured:
  assumes "cnt \<in> content ` set items0"
    and "\<not> (Some cnt = lastScanRef s \<and> now - lastScanTimeRef s < 1500)"
  shows "handleScan items0 metadata0 cnt fmt now uuid toastNow s =
           s\<lparr>lastScanRef := Some cnt, lastScanTimeRef := now, beeps := Suc (beeps s),
             toast := Some \<lparr>message = msgDuplicate, type = warning, toastId = toastNow\<rparr>\<rparr>"
proof -
  from assms(1) have "list_ex (\<lambda>item. content item = cnt) items0"
    by (auto simp: list_ex_iff)
  with assms(2) show ?thesis
    by (auto simp: handleScan_def Let_def playScanBeep_def showToast_def)
qed

text \<open>
  Claim C10. A scan that passes the cooldown check beeps once and makes its payload and
  time the cooldown reference, whether or not its payload is found by the duplicate test;
  a scan inside the cooldown window does not beep.
\<close>

theorem handleScan_beep_and_reference:
  "(\<not> (Some P = lastScanRef s \<and> now - lastScanTimeRef s < 1500) \<longrightarrow>
      beeps (handleScan items0 metadata0 P fmt now uuid toastNow s) = Suc (beeps s)
      \<and> lastScanRef (handleScan items0 metadata0 P fmt now uuid toastNow s) = Some P
      \<and> lastScanTimeRef (handleScan items0 metadata0 P fmt now uuid toastNow s) = now)
   \<and> (Some P = lastScanRef s \<and> now - lastScanTimeRef s < 1500 \<longrightarrow>
      beeps (handleScan items0 metadata0 P fmt now uuid toastNow s) = beeps s)"
  by (simp add: handleScan_def Let_def playScanBeep_def showToast_def)

theorem handleScan_beep_and_reference_witness:
  "\<not> (Some (ascii ''He said \"hi\"'') = lastScanRef exampleState
          \<and> 5000 - lastScanTimeRef exampleState < 1500)
   \<and> list_ex (\<lambda>item. content item = ascii ''He said \"hi\"'') [exampleItem]
   \<and> beeps (handleScan [exampleItem] exampleDraft (ascii ''He said \"hi\"'') QR_CODE 5000
        (ascii ''id-2'') 5001 exampleState) = 2
   \<and> lastScanTimeRef (handleScan [exampleItem] exampleDraft (ascii ''He said \"hi\"'') QR_CODE 5000
        (ascii ''id-2'') 5001 exampleState) = 5000
   \<and> (Some (ascii ''He said \"hi\"'') = lastScanRef exampleState
          \<and> 2000 - lastScanTimeRef exampleState < 1500)
   \<and> beeps (handleScan [exampleItem] exampleDraft (ascii ''He said \"hi\"'') QR_CODE 2000
        (ascii ''id-2'') 2001 exampleState) = 1"
proof -
  have h1: "\<not> (Some (ascii ''He said \"hi\"'') = lastScanRef exampleState
          \<and> 5000 - lastScanTimeRef exampleState < 1500)"
    by (simp add: exampleState_def)
  have h2: "Some (ascii ''He said \"hi\"'') = lastScanRef exampleState
          \<and> 2000 - lastScanTimeRef exampleState < 1500"
    by (simp add: exampleState_def)
  have d: "list_ex (\<lambda>item. content item = ascii ''He said \"hi\"'') [exampleItem]"
    by (simp add: exampleItem_def)
  have b: "beeps exampleState = 1"
    by (simp add: exampleState_def)
  from handleScan_beep_and_reference
         [of "ascii ''He said \"hi\"''" exampleState 5000 "[exampleItem]" exampleDraft QR_CODE
             "ascii ''id-2''" 5001]
       handleScan_beep_and_reference
         [of "ascii ''He said \"hi\"''" exampleState 2000 "[exampleItem]" exampleDraft QR_CODE
             "ascii ''id-2''" 2001]
       h1 h2
  have c: "beeps (handleScan [exampleItem] exampleDraft (ascii ''He said \"hi\"'') QR_CODE 5000
              (ascii ''id-2'') 5001 exampleState) = Suc (beeps exampleState)
         \<and> lastScanTimeRef (handleScan [exampleItem] exampleDraft (ascii ''He said \"hi\"'')
              QR_CODE 5000 (ascii ''id-2'') 5001 exampleState) = 5000
         \<and> beeps (handleScan [exampleItem] exampleDraft (ascii ''He said \"hi\"'') QR_CODE 2000
              (ascii ''id-2'') 2001 exampleState) = beeps exampleState"
    by blast
  from c have c': "beeps (handleScan [exampleItem] exampleDraft (ascii ''He said \"hi\"'')
              QR_CODE 5000 (ascii ''id-2'') 5001 exampleState) = 2
         \<and> lastScanTimeRef (handleScan [exampleItem] exampleDraft (ascii ''He said \"hi\"'')
              QR_CODE 5000 (ascii ''id-2'') 5001 exampleState) = 5000
         \<and> beeps (handleScan [exampleItem] exampleDraft (ascii ''He said \"hi\"'') QR_CODE 2000
              (ascii ''id-2'') 2001 exampleState) = 1"
    by (simp add: b)
  from h1 h2 d c' show ?thesis by blast
qed

text \<open>
  Claim C9. A confirmed \<open>handleClear\<close> empties the store and sets the cooldown reference to
  null and keeps the metadata; the clear is a click, after which the page is rendered, so
  the next scan is served by a callback that has captured the empty store and the
  metadata. That scan, of any payload and at any time, is not suppressed: it beeps, shows
  the success toast and leaves a store of exactly the new record.
\<close>

theorem clear_then_scan_accepted:
  "items (handleClear True s) = [] \<and> lastScanRef (handleClear True s) = None
   \<and> metadata (handleClear True s) = metadata s
   \<and> handleScan (items (handleClear True s)) (metadata (handleClear True s))
        P fmt now uuid toastNow (handleClear True s) =
       s\<lparr>items := [\<lparr>schoolName = schoolName (metadata s), grade = grade (metadata s),
                    className = className (metadata s), inputterName = inputterName (metadata s),
                    id' = uuid, content = P, format = fmt, timestamp = now\<rparr>],
         lastScanRef := Some P, lastScanTimeRef := now, beeps := Suc (beeps s),
         toast := Some \<lparr>message = msgSuccess, type = success, toastId = toastNow\<rparr>\<rparr>"
  by (simp add: handleClear_def handleScan_def Let_def playScanBeep_def showToast_def)

theorem clear_then_scan_accepted_witness:
  "items (live (run (exampleRun @ [Clear True, Render,
      Scan (ascii ''He said \"hi\"'') QR_CODE 1002 (ascii ''id-2'') 1003]))) =
     [exampleItem\<lparr>id' := ascii ''id-2'', timestamp := 1002\<rparr>]
   \<and> beeps (live (run (exampleRun @ [Clear True, Render,
      Scan (ascii ''He said \"hi\"'') QR_CODE 1002 (ascii ''id-2'') 1003]))) = 2"
proof -
  have r: "run (exampleRun @ [Clear True, Render,
      Scan (ascii ''He said \"hi\"'') QR_CODE 1002 (ascii ''id-2'') 1003]) =
     \<lparr>live = handleScan (items (handleClear True exampleState))
               (metadata (handleClear True exampleState))
               (ascii ''He said \"hi\"'') QR_CODE 1002 (ascii ''id-2'') 1003
               (handleClear True exampleState),
      capturedItems = items (handleClear True exampleState),
      capturedMetadata = metadata (handleClear True exampleState)\<rparr>"
    using exampleRun_state by (simp add: run_def render_def)
  from clear_then_scan_accepted [of exampleState
      "ascii ''He said \"hi\"''" QR_CODE 1002 "ascii ''id-2''" 1003]
  have c: "handleScan (items (handleClear True exampleState))
             (metadata (handleClear True exampleState))
             (ascii ''He said \"hi\"'') QR_CODE 1002 (ascii ''id-2'') 1003
             (handleClear True exampleState) =
           exampleState\<lparr>items := [\<lparr>schoolName = schoolName (metadata exampleState),
                    grade = grade (metadata exampleState),
                    className = className (metadata exampleState),
                    inputterName = inputterName (metadata exampleState),
                    id' = ascii ''id-2'', content = ascii ''He said \"hi\"'', format = QR_CODE,
                    timestamp = 1002\<rparr>],
             lastScanRef := Some (ascii ''He said \"hi\"''), lastScanTimeRef := 1002,
             beeps := Suc (beeps exampleState),
             toast := Some \<lparr>message = msgSuccess, type = success, toastId = 1003\<rparr>\<rparr>"
    by blast
  show ?thesis
    unfolding r c by (simp add: exampleState_def exampleItem_def exampleDraft_def)
qed


section \<open>The history store\<close>

text \<open>
  Claim C6. \<open>handleMetadataChange\<close> puts the edited value under the edited key of the
  metadata draft and keeps the other three keys; every record of the store then carries
  the four values of the new draft, with its own \<open>id\<close>, \<open>content\<close>, \<open>format\<close> and
  \<open>timestamp\<close>; the number and the order of the records stay as they were.
\<close>

theorem handleMetadataChange_frame:
  "metadata (handleMetadataChange SchoolName v s) =
     \<lparr>schoolName = v, grade = grade (metadata s), className = className (metadata s),
      inputterName = inputterName (metadata s)\<rparr>
   \<and> metadata (handleMetadataChange Grade v s) =
     \<lparr>schoolName = schoolName (metadata s), grade = v, className = className (metadata s),
      inputterName = inputterName (metadata s)\<rparr>
   \<and> metadata (handleMetadataChange ClassName v s) =
     \<lparr>schoolName = schoolName (metadata s), grade = grade (metadata s), className = v,
      inputterName = inputterName (metadata s)\<rparr>
   \<and> metadata (handleMetadataChange InputterName v s) =
     \<lparr>schoolName = schoolName (metadata s), grade = grade (metadata s),
      className = className (metadata s), inputterName = v\<rparr>
   \<and> items (handleMetadataChange name v s) =
       map (\<lambda>item. \<lparr>schoolName = schoolName (metadata (handleMetadataChange name v s)),
                     grade = grade (metadata (handleMetadataChange name v s)),
                     className = className (metadata (handleMetadataChange name v s)),
                     inputterName = inputterName (metadata (handleMetadataChange name v s)),
                     id' = id' item, content = content item, format = format item,
                     timestamp = timestamp item\<rparr>) (items s)
   \<and> map schoolName (items (handleMetadataChange name v s)) =
       replicate (length (items s)) (schoolName (metadata (handleMetadataChange name v s)))
   \<and> map grade (items (handleMetadataChange name v s)) =
       replicate (length (items s)) (grade (metadata (handleMetadataChange name v s)))
   \<and> map className (items (handleMetadataChange name v s)) =
       replicate (length (items s)) (className (metadata (handleMetadataChange name v s)))
   \<and> map inputterName (items (handleMetadataChange name v s)) =
       replicate (length (items s)) (inputterName (metadata (handleMetadataChange name v s)))
   \<and> map content (items (handleMetadataChange name v s)) = map content (items s)
   \<and> map id' (items (handleMetadataChange name v s)) = map id' (items s)
   \<and> map format (items (handleMetadataChange name v s)) = map format (items s)
   \<and> map timestamp (items (handleMetadataChange name v s)) = map timestamp (items s)
   \<and> length (items (handleMetadataChange name v s)) = length (items s)"
  by (simp add: handleMetadataChange_def Let_def map_replicate_const comp_def)

theorem handleMetadataChange_frame_witness:
  "metadata (handleMetadataChange Grade (ascii ''2'') twoItems) =
     \<lparr>schoolName = ascii ''X'', grade = ascii ''2'', className = ascii ''A'',
      inputterName = ascii ''Y''\<rparr>
   \<and> items (handleMetadataChange Grade (ascii ''2'') twoItems) =
     [\<lparr>schoolName = ascii ''X'', grade = ascii ''2'', className = ascii ''A'',
       inputterName = ascii ''Y'', id' = ascii ''id-2'', content = ascii ''B'',
       format = QR_CODE, timestamp = 2000\<rparr>,
      \<lparr>schoolName = ascii ''X'', grade = ascii ''2'', className = ascii ''A'',
       inputterName = ascii ''Y'', id' = ascii ''id-1'', content = ascii ''He said \"hi\"'',
       format = QR_CODE, timestamp = 1000\<rparr>]"
proof -
  have m: "metadata twoItems = exampleDraft" and i: "items twoItems = [otherItem, exampleItem]"
    by (simp_all add: twoItems_def)
  from handleMetadataChange_frame [of "ascii ''2''" twoItems Grade]
  have c: "metadata (handleMetadataChange Grade (ascii ''2'') twoItems) =
       \<lparr>schoolName = schoolName (metadata twoItems), grade = ascii ''2'',
        className = className (metadata twoItems),
        inputterName = inputterName (metadata twoItems)\<rparr>
     \<and> items (handleMetadataChange Grade (ascii ''2'') twoItems) =
       map (\<lambda>item. \<lparr>schoolName = schoolName (metadata (handleMetadataChange Grade (ascii ''2'') twoItems)),
                     grade = grade (metadata (handleMetadataChange Grade (ascii ''2'') twoItems)),
                     className = className (metadata (handleMetadataChange Grade (ascii ''2'') twoItems)),
                     inputterName = inputterName (metadata (handleMetadataChange Grade (ascii ''2'') twoItems)),
                     id' = id' item, content = content item, format = format item,
                     timestamp = timestamp item\<rparr>) (items twoItems)"
    by blast
  from c have c1: "metadata (handleMetadataChange Grade (ascii ''2'') twoItems) =
       \<lparr>schoolName = ascii ''X'', grade = ascii ''2'', className = ascii ''A'',
        inputterName = ascii ''Y''\<rparr>"
    by (simp add: m exampleDraft_def)
  from c have "items (handleMetadataChange Grade (ascii ''2'') twoItems) =
     [\<lparr>schoolName = ascii ''X'', grade = ascii ''2'', className = ascii ''A'',
       inputterName = ascii ''Y'', id' = ascii ''id-2'', content = ascii ''B'',
       format = QR_CODE, timestamp = 2000\<rparr>,
      \<lparr>schoolName = ascii ''X'', grade = ascii ''2'', className = ascii ''A'',
       inputterName = ascii ''Y'', id' = ascii ''id-1'', content = ascii ''He said \"hi\"'',
       format = QR_CODE, timestamp = 1000\<rparr>]"
    by (simp add: c1 i otherItem_def exampleItem_def)
  with c1 show ?thesis by blast
qed

text \<open>
  The four inputs filled in one after the other give every record those four values.
\<close>

lemma overwrite_all_four:
  "items (handleMetadataChange InputterName y (handleMetadataChange ClassName a
     (handleMetadataChange Grade g (handleMetadataChange SchoolName x s)))) =
   map (\<lambda>item. \<lparr>schoolName = x, grade = g, className = a, inputterName = y,
                 id' = id' item, content = content item, format = format item,
                 timestamp = timestamp item\<rparr>) (items s)"
  by (simp add: handleMetadataChange_def Let_def comp_def)

text \<open>
  Claim C7. In a store whose ids are pairwise distinct, \<open>handleDelete\<close> with the id of the
  record at position \<open>k\<close> leaves the records before \<open>k\<close> followed by the records after
  \<open>k\<close>, in their order; with an id that no record has it leaves the state as it was.
\<close>

theorem handleDelete_exact:
  "(distinct (map id' (items s)) \<and> k < length (items s) \<longrightarrow>
      items (handleDelete (id' (items s ! k)) s) = take k (items s) @ drop (Suc k) (items s))
   \<and> (i \<notin> id' ` set (items s) \<longrightarrow> handleDelete i s = s)"
  by (simp add: handleDelete_def filter_other_keys filter_absent_key)

theorem handleDelete_exact_witness:
  "distinct (map id' (items twoItems)) \<and> 1 < length (items twoItems)
   \<and> items (handleDelete (ascii ''id-1'') twoItems) = [otherItem]
   \<and> ascii ''id-3'' \<notin> id' ` set (items twoItems)
   \<and> handleDelete (ascii ''id-3'') twoItems = twoItems"
proof -
  have h1: "distinct (map id' (items twoItems)) \<and> 1 < length (items twoItems)"
    by (simp add: twoItems_def otherItem_def exampleItem_def ascii_def)
  have h2: "ascii ''id-3'' \<notin> id' ` set (items twoItems)"
    by (simp add: twoItems_def otherItem_def exampleItem_def ascii_def)
  have e: "id' (items twoItems ! 1) = ascii ''id-1''"
    by (simp add: twoItems_def exampleItem_def)
  from handleDelete_exact [of twoItems 1 "ascii ''id-3''"] h1 h2 e
  show ?thesis by (simp add: twoItems_def)
qed

text \<open>
  Claim C1, as amended. In the App component of App.tsx a scan whose payload occurs in
  the list that its callback has captured creates no record. A scan keeps the payloads of
  the store pairwise distinct when the captured list holds every payload of the store, as
  it does when the callback comes from a render of the store as it is; deletion, clear and
  metadata change keep them pairwise distinct. So in every run in which a render follows
  each event the payloads of the store are pairwise distinct.
\<close>

theorem payloads_distinct_in_App:
  "(list_ex (\<lambda>item. content item = cnt) items0 \<longrightarrow>
      items (handleScan items0 metadata0 cnt fmt now uuid toastNow s) = items s)
   \<and> (distinct (map content (items s)) \<and> content ` set (items s) \<subseteq> content ` set items0 \<longrightarrow>
      distinct (map content (items (handleScan items0 metadata0 cnt fmt now uuid toastNow s))))
   \<and> (distinct (map content (items s)) \<longrightarrow>
      distinct (map content (items (handleDelete i s)))
      \<and> distinct (map content (items (handleClear confirmed s)))
      \<and> distinct (map content (items (handleMetadataChange name v s))))
   \<and> distinct (map content (items (live (run (rendered es)))))"
proof (intro conjI impI)
  show "items (handleScan items0 metadata0 cnt fmt now uuid toastNow s) = items s"
    if "list_ex (\<lambda>item. content item = cnt) items0"
    using that by (simp add: handleScan_def Let_def playScanBeep_def showToast_def)
next
  assume "distinct (map content (items s)) \<and> content ` set (items s) \<subseteq> content ` set items0"
  then show "distinct (map content (items (handleScan items0 metadata0 cnt fmt now uuid toastNow s)))"
    by (simp add: handleScan_keeps_distinct)
next
  assume "distinct (map content (items s))"
  then show "distinct (map content (items (handleDelete i s)))"
    by (rule handleDelete_keeps_distinct)
next
  assume "distinct (map content (items s))"
  then show "distinct (map content (items (handleClear confirmed s)))"
    by (rule handleClear_keeps_distinct)
next
  assume "distinct (map content (items s))"
  then show "distinct (map content (items (handleMetadataChange name v s)))"
    by (rule handleMetadataChange_keeps_distinct)
next
  have "distinct (map content (items (live firstRender)))"
    and "content ` set (items (live firstRender)) \<subseteq> content ` set (capturedItems firstRender)"
    by (simp_all add: firstRender_def initial_def)
  then show "distinct (map content (items (live (run (rendered es)))))"
    unfolding run_def by (rule rendered_run_keeps_distinct)
qed

theorem payloads_distinct_in_App_witness:
  "list_ex (\<lambda>item. content item = ascii ''He said \"hi\"'') [exampleItem]
   \<and> items (handleScan [exampleItem] exampleDraft (ascii ''He said \"hi\"'') QR_CODE 5000
        (ascii ''id-2'') 5001 exampleState) = items exampleState
   \<and> distinct (map content (items exampleState))
   \<and> content ` set (items exampleState) \<subseteq> content ` set [exampleItem]
   \<and> distinct (map content (items (handleScan [exampleItem] exampleDraft (ascii ''B'') QR_CODE 5000
        (ascii ''id-2'') 5001 exampleState)))
   \<and> map content (items (live (run (rendered staleRun)))) = [ascii ''B'', ascii ''A'']
   \<and> distinct (map content (items (live (run (rendered staleRun)))))"
proof -
  have h1: "list_ex (\<lambda>item. content item = ascii ''He said \"hi\"'') [exampleItem]"
    by (simp add: exampleItem_def)
  have h2: "distinct (map content (items exampleState))
     \<and> content ` set (items exampleState) \<subseteq> content ` set [exampleItem]"
    by (simp add: exampleState_def)
  have r: "map content (items (live (run (rendered staleRun)))) = [ascii ''B'', ascii ''A'']"
    by (simp add: run_def rendered_def staleRun_def firstRender_def render_def initial_def
        handleScan_def Let_def playScanBeep_def showToast_def ascii_def)
  note t1 = payloads_distinct_in_App
         [where cnt = "ascii ''He said \"hi\"''" and ?items0.0 = "[exampleItem]"
            and ?metadata0.0 = exampleDraft and fmt = QR_CODE and now = 5000
            and uuid = "ascii ''id-2''" and toastNow = 5001 and s = exampleState
            and es = staleRun]
  note t2 = payloads_distinct_in_App
         [where cnt = "ascii ''B''" and ?items0.0 = "[exampleItem]"
            and ?metadata0.0 = exampleDraft and fmt = QR_CODE and now = 5000
            and uuid = "ascii ''id-2''" and toastNow = 5001 and s = exampleState
            and es = staleRun]
  have c1: "items (handleScan [exampleItem] exampleDraft (ascii ''He said \"hi\"'')
        QR_CODE 5000 (ascii ''id-2'') 5001 exampleState) = items exampleState"
    by (rule mp [OF conjunct1 [OF t1] h1])
  have c2: "distinct (map content (items (handleScan [exampleItem] exampleDraft
        (ascii ''B'') QR_CODE 5000 (ascii ''id-2'') 5001 exampleState)))"
    by (rule mp [OF conjunct1 [OF conjunct2 [OF t2]] h2])
  have c3: "distinct (map content (items (live (run (rendered staleRun)))))"
    by (rule conjunct2 [OF conjunct2 [OF conjunct2 [OF t1]]])
  show ?thesis
    by (intro conjI h1 c1 conjunct1 [OF h2] conjunct2 [OF h2] c2 r c3)
qed

text \<open>
  Claim C1 as stated covers the other App component as well, and there it fails, since
  that \<open>handleScan\<close> has no test of the store: the payload \<open>A\<close> scanned at time 1000 and
  again at time 3000, when its 2000 ms cooldown is over, is in the store twice.
\<close>

theorem payloads_distinct_p1_counterexample:
  "\<not> distinct (map content (items
      (handleScan_p1 (metadata initial) (ascii ''A'') QR_CODE 3000 (ascii ''id-2'')
        (handleScan_p1 (metadata initial) (ascii ''A'') QR_CODE 1000 (ascii ''id-1'') initial))))"
  by (simp add: handleScan_p1_def initial_def Let_def playScanBeep_def ascii_def)


section \<open>The exporter\<close>

text \<open>
  What holds of the download: with a store that is not empty, \<open>handleDownloadCSV\<close> adds
  one download, whose text is U+FEFF followed by the header line and the lines of the
  records; the fields of a line that come from the school, the grade, the class, the
  inputter and the content are enclosed in double quotes with the quotes of the value
  doubled, and \<open>He said "hi"\<close> becomes \<open>"He said ""hi"""\<close>.
\<close>

lemma handleDownloadCSV_starts_with_BOM:
  assumes "items s \<noteq> []"
  shows "downloads (handleDownloadCSV loc isoNow s) =
           downloads s @ [(filePrefix @ take 10 isoNow @ ascii ''.csv'',
                           BOM # join [newline] (headers # map (row loc) (items s)))]"
  using assms by (simp add: handleDownloadCSV_def Let_def csvText_def)

lemma quoted_fields_enclosed:
  "rowFields loc item ! 0 = safe (schoolName item) \<and> rowFields loc item ! 1 = safe (grade item)
   \<and> rowFields loc item ! 2 = safe (className item)
   \<and> rowFields loc item ! 3 = safe (inputterName item)
   \<and> rowFields loc item ! 5 = safe (content item)
   \<and> enclosed (safe x)"
  by (simp add: rowFields_def enclosed_safe)

lemma safe_example:
  "safe (ascii ''He said \"hi\"'') = ascii ''\"He said \"\"hi\"\"\"''"
  by (simp add: safe_def replaceQuotes_def ascii_def dquote_def)

text \<open>
  Claim C4 fails on the code. The date of a line is the text of \<open>toLocaleString\<close> as it
  is, without quotes, and so is the format. In en-US that text has a comma: the line of
  the example record has eight cells under the seven of the header line.
\<close>

theorem csv_raw_date_splits_row:
  "rowFields exampleLocaleUS exampleItem ! 4 = ascii ''1/1/1970, 9:00:01 AM''
   \<and> \<not> enclosed (rowFields exampleLocaleUS exampleItem ! 4)
   \<and> \<not> enclosed (rowFields exampleLocaleUS exampleItem ! 6)
   \<and> \<not> list_all enclosed (rowFields exampleLocaleUS exampleItem)
   \<and> row exampleLocaleUS exampleItem =
       ascii ''\"X\",\"1\",\"A\",\"Y\",1/1/1970, 9:00:01 AM,\"He said \"\"hi\"\"\",QR_CODE''
   \<and> cells headers = 7
   \<and> cells (row exampleLocaleUS exampleItem) = 8
   \<and> downloads (handleDownloadCSV exampleLocaleUS exampleIso exampleState) =
       [(filePrefix @ ascii ''1970-01-01.csv'',
         [BOM] @ headers @ [newline] @ row exampleLocaleUS exampleItem)]"
proof -
  have f: "rowFields exampleLocaleUS exampleItem =
      [ascii ''\"X\"'', ascii ''\"1\"'', ascii ''\"A\"'', ascii ''\"Y\"'',
       ascii ''1/1/1970, 9:00:01 AM'', ascii ''\"He said \"\"hi\"\"\"'', ascii ''QR_CODE'']"
    by (simp add: rowFields_def exampleLocaleUS_def exampleItem_def QR_CODE_def safe_def
        replaceQuotes_def ascii_def dquote_def)
  have r: "row exampleLocaleUS exampleItem =
       ascii ''\"X\",\"1\",\"A\",\"Y\",1/1/1970, 9:00:01 AM,\"He said \"\"hi\"\"\",QR_CODE''"
    by (simp add: row_def f) (simp add: ascii_def comma_def)
  have h: "cells headers = 7"
    by (simp add: cells_def headers_def dquote_def comma_def)
  have c: "cells (row exampleLocaleUS exampleItem) = 8"
    by (simp add: r) (simp add: cells_def ascii_def dquote_def comma_def)
  have e: "\<not> enclosed (ascii ''1/1/1970, 9:00:01 AM'')" "\<not> enclosed (ascii ''QR_CODE'')"
    by (simp_all add: enclosed_def ascii_def dquote_def)
  have d: "downloads (handleDownloadCSV exampleLocaleUS exampleIso exampleState) =
       [(filePrefix @ ascii ''1970-01-01.csv'',
         [BOM] @ headers @ [newline] @ row exampleLocaleUS exampleItem)]"
    by (simp add: handleDownloadCSV_def exampleState_def Let_def csvText_def exampleIso_def)
       (simp add: ascii_def)
  from f e have "rowFields exampleLocaleUS exampleItem ! 4 = ascii ''1/1/1970, 9:00:01 AM''"
    and "\<not> enclosed (rowFields exampleLocaleUS exampleItem ! 4)"
    and "\<not> enclosed (rowFields exampleLocaleUS exampleItem ! 6)"
    and "\<not> list_all enclosed (rowFields exampleLocaleUS exampleItem)"
    by simp_all
  with r h c d show ?thesis by (intro conjI)
qed

text \<open>
  Claim C5. With an empty store \<open>handleCopyAll\<close> and \<open>handleDownloadCSV\<close> of App.tsx
  return the state they were given: nothing is written to the clipboard, nothing is
  downloaded, no alert is shown. The same holds for a click on either export button, in
  App.tsx and in the other App component, where the buttons are disabled.
\<close>

theorem export_of_empty_store_noop:
  assumes "items s = []"
  shows "handleCopyAll loc s = s \<and> handleDownloadCSV loc isoNow s = s
       \<and> copyButton loc s = s \<and> csvButton loc isoNow s = s
       \<and> copyButton_p1 s = s \<and> csvButton_p1 loc isoNow s = s"
  using assms
  by (simp add: handleCopyAll_def handleDownloadCSV_def copyButton_def csvButton_def
      copyButton_p1_def csvButton_p1_def)

theorem export_of_empty_store_noop_witness:
  "items initial = []
   \<and> handleCopyAll exampleLocale initial = initial
   \<and> handleDownloadCSV exampleLocale exampleIso initial = initial
   \<and> copyButton_p1 initial = initial
   \<and> csvButton_p1 exampleLocale exampleIso initial = initial"
proof -
  have h: "items initial = []" by (simp add: initial_def)
  from export_of_empty_store_noop [OF h, of exampleLocale exampleIso] h
  show ?thesis by simp
qed

text \<open>
  In the other App component it is the disabled button alone that keeps the export from
  an empty store: \<open>handleCopyAll\<close> there has no test of its own and, were it called,
  would write the empty text.
\<close>

lemma handleCopyAll_p1_unguarded:
  "clipboard (handleCopyAll_p1 initial) = [[]]"
  by (simp add: handleCopyAll_p1_def initial_def)


section \<open>The insight service\<close>

text \<open>
  Claim C8. The promise of \<open>analyzeScannedItems\<close> always resolves to a string and never
  rejects. Without a key (undefined or empty) it resolves to the "not configured" string
  and no request is sent; with an empty list no request is sent and it resolves to the
  "no items" string (or the "not configured" one when the key is missing too); when the
  constructor of the client or the request throws, it resolves to the "failed" string and
  the error is logged.
\<close>

theorem analyzeScannedItems_total:
  "(\<exists>str. settled (analyzeScannedItems API_KEY GoogleGenAI generateContent tls its) = Inr str)
   \<and> (API_KEY = None \<or> API_KEY = Some [] \<longrightarrow>
        settled (analyzeScannedItems API_KEY GoogleGenAI generateContent tls its) = Inr notConfigured
        \<and> requests (analyzeScannedItems API_KEY GoogleGenAI generateContent tls its) = [])
   \<and> (its = [] \<longrightarrow>
        settled (analyzeScannedItems API_KEY GoogleGenAI generateContent tls its)
          \<in> {Inr notConfigured, Inr noItems}
        \<and> requests (analyzeScannedItems API_KEY GoogleGenAI generateContent tls its) = [])
   \<and> (API_KEY = Some key \<and> key \<noteq> [] \<and> its = [] \<longrightarrow>
        settled (analyzeScannedItems API_KEY GoogleGenAI generateContent tls its) = Inr noItems)
   \<and> (API_KEY = Some key \<and> key \<noteq> [] \<and> its \<noteq> [] \<and> GoogleGenAI key = Inl e \<longrightarrow>
        analyzeScannedItems API_KEY GoogleGenAI generateContent tls its =
          \<lparr>settled = Inr failedToAnalyze, requests = [], consoleErrors = [e]\<rparr>)
   \<and> (API_KEY = Some key \<and> key \<noteq> [] \<and> its \<noteq> [] \<and> GoogleGenAI key = Inr ai
        \<and> generateContent ai (contentsOf (join [newline]
              (map (\<lambda>item. ascii ''- '' @ content item @ ascii '' (scanned at ''
                             @ tls (timestamp item) @ ascii '')'') its))) = Inl e \<longrightarrow>
        settled (analyzeScannedItems API_KEY GoogleGenAI generateContent tls its)
          = Inr failedToAnalyze
        \<and> consoleErrors (analyzeScannedItems API_KEY GoogleGenAI generateContent tls its) = [e])"
  by (auto simp: analyzeScannedItems_def catch_def Let_def
      split: option.splits sum.splits)

theorem analyzeScannedItems_total_witness:
  "analyzeScannedItems None newClient requestAnswers exampleLocale [exampleItem] =
     \<lparr>settled = Inr notConfigured, requests = [], consoleErrors = []\<rparr>
   \<and> settled (analyzeScannedItems (Some (ascii ''key'')) newClient requestAnswers exampleLocale [])
       = Inr noItems
   \<and> settled (analyzeScannedItems (Some (ascii ''key'')) newClient requestFails exampleLocale
        [exampleItem]) = Inr failedToAnalyze
   \<and> settled (analyzeScannedItems (Some (ascii ''key'')) newClient requestAnswers exampleLocale
        [exampleItem]) = Inr (ascii ''These are URLs.'')"
proof -
  have k: "ascii ''key'' \<noteq> []" by (simp add: ascii_def)
  have a: "consoleErrors (analyzeScannedItems None newClient requestAnswers exampleLocale
             [exampleItem]) = []"
    by (simp add: analyzeScannedItems_def)
  have b: "settled (analyzeScannedItems (Some (ascii ''key'')) newClient requestAnswers
             exampleLocale [exampleItem]) = Inr (ascii ''These are URLs.'')"
    by (simp add: analyzeScannedItems_def k newClient_def requestAnswers_def Let_def)
       (simp add: ascii_def)
  from analyzeScannedItems_total
         [where API_KEY = None and GoogleGenAI = newClient and generateContent = requestAnswers
            and tls = exampleLocale and its = "[exampleItem]"]
  have c1: "settled (analyzeScannedItems None newClient requestAnswers exampleLocale
              [exampleItem]) = Inr notConfigured
          \<and> requests (analyzeScannedItems None newClient requestAnswers exampleLocale
              [exampleItem]) = []"
    by blast
  from analyzeScannedItems_total
         [where API_KEY = "Some (ascii ''key'')" and GoogleGenAI = newClient
            and generateContent = requestAnswers and tls = exampleLocale and its = "[]"
            and key = "ascii ''key''"] k
  have c2: "settled (analyzeScannedItems (Some (ascii ''key'')) newClient requestAnswers
              exampleLocale []) = Inr noItems"
    by blast
  from analyzeScannedItems_total
         [where API_KEY = "Some (ascii ''key'')" and GoogleGenAI = newClient
            and generateContent = requestFails and tls = exampleLocale and its = "[exampleItem]"
            and key = "ascii ''key''" and ai = "()" and e = "Error (ascii ''fetch failed'')"] k
  have c3: "settled (analyzeScannedItems (Some (ascii ''key'')) newClient requestFails
              exampleLocale [exampleItem]) = Inr failedToAnalyze"
    by (simp add: newClient_def requestFails_def)
  from c1 a have "analyzeScannedItems None newClient requestAnswers exampleLocale [exampleItem] =
     \<lparr>settled = Inr notConfigured, requests = [], consoleErrors = []\<rparr>"
    by (cases "analyzeScannedItems None newClient requestAnswers exampleLocale [exampleItem]") simp
  with c2 c3 b show ?thesis by blast
qed

end
